theory Spec2Isabelle
  imports Main
begin

section \<open>Tensors and the operations of the tensor engine\<close>

text \<open>
  The layers of \<^verbatim>\<open>DLWP/custom.py\<close> work on dense tensors through the Keras backend
  \<^verbatim>\<open>K\<close> and TensorFlow. A tensor is modelled by its shape (one field per axis) and a
  function from indices to elements; only indices below the shape are meaningful.
  A cube-sphere tensor has five axes \<^verbatim>\<open>(batch, channels, height, width, face)\<close>; fixing
  the face leaves four.

  Every failure of the engine (an index out of bounds, a concatenation of tensors whose
  other axes differ) is the value \<open>Inl InvalidArgument\<close>; a \<^verbatim>\<open>raise ValueError\<close> of the
  Python code is \<open>Inl ValueError\<close>, and Python's own \<^verbatim>\<open>IndexError\<close>,
  \<^verbatim>\<open>AssertionError\<close> and \<^verbatim>\<open>ZeroDivisionError\<close> keep their names. The operations are
  strict: an argument that already failed makes the result fail, as a Python exception
  does.
\<close>

datatype error = ValueError | InvalidArgument | IndexError | AssertionError | ZeroDivisionError

type_synonym 'a res = "error + 'a"

record 'a tensor4 =
  batch4 :: nat
  chans4 :: nat
  rows4 :: nat
  cols4 :: nat
  at4 :: "nat \<Rightarrow> nat \<Rightarrow> nat \<Rightarrow> nat \<Rightarrow> 'a"

record 'a tensor5 =
  batch5 :: nat
  chans5 :: nat
  rows5 :: nat
  cols5 :: nat
  faces5 :: nat
  at5 :: "nat \<Rightarrow> nat \<Rightarrow> nat \<Rightarrow> nat \<Rightarrow> nat \<Rightarrow> 'a"

text \<open>
  Python slicing on an axis of length \<open>n\<close>: a negative bound counts from the end, and
  every bound is clipped to the axis, so a slice never fails. Note that \<^verbatim>\<open>-p:\<close> with
  \<^verbatim>\<open>p = 0\<close> is \<^verbatim>\<open>0:\<close>, the whole axis.
\<close>

definition clip_index :: "int \<Rightarrow> nat \<Rightarrow> int" where
  "clip_index s n = (if s < 0 then max (s + int n) 0 else min s (int n))"

definition py_slice :: "int option \<Rightarrow> int option \<Rightarrow> nat \<Rightarrow> nat \<times> nat" where
  "py_slice start stop n =
     (let lo = (case start of None \<Rightarrow> 0 | Some s \<Rightarrow> clip_index s n);
          hi = (case stop of None \<Rightarrow> int n | Some e \<Rightarrow> clip_index e n)
      in (nat lo, nat (hi - lo)))"

text \<open>
  One entry of a subscript: \<^verbatim>\<open>:\<close> is \<open>Full\<close>, \<^verbatim>\<open>::-1\<close> is \<open>Reversed\<close>, \<^verbatim>\<open>a:b\<close> is
  \<open>Range\<close> (an omitted bound is \<open>None\<close>). \<open>sel_len\<close> is the length of the selected
  axis and \<open>sel_ix\<close> the source index of its \<open>i\<close>-th entry.
\<close>

datatype sel = Full | Reversed | Range "int option" "int option"

fun sel_len :: "sel \<Rightarrow> nat \<Rightarrow> nat" where
  "sel_len Full n = n"
| "sel_len Reversed n = n"
| "sel_len (Range s e) n = snd (py_slice s e n)"

fun sel_ix :: "sel \<Rightarrow> nat \<Rightarrow> nat \<Rightarrow> nat" where
  "sel_ix Full n i = i"
| "sel_ix Reversed n i = n - 1 - i"
| "sel_ix (Range s e) n i = fst (py_slice s e n) + i"

text \<open>\<^verbatim>\<open>x[:, :, r, c, f]\<close>: the face \<open>f\<close> must exist; \<^verbatim>\<open>x[..., f]\<close> is \<open>slice5 x Full Full f\<close>.\<close>

fun slice5 :: "'a tensor5 res \<Rightarrow> sel \<Rightarrow> sel \<Rightarrow> nat \<Rightarrow> 'a tensor4 res" where
  "slice5 (Inl e) r c f = Inl e"
| "slice5 (Inr x) r c f =
     (if f < faces5 x
      then Inr \<lparr>batch4 = batch5 x, chans4 = chans5 x,
                rows4 = sel_len r (rows5 x), cols4 = sel_len c (cols5 x),
                at4 = (\<lambda>b ch i j. at5 x b ch (sel_ix r (rows5 x) i) (sel_ix c (cols5 x) j) f)\<rparr>
      else Inl InvalidArgument)"

text \<open>
  \<^verbatim>\<open>K.reverse(t, axis)\<close> on a tensor of four axes; a negative axis counts from the last,
  so \<open>-2\<close> is axis 2 (the height) and \<open>-1\<close> axis 3 (the width).
\<close>

fun K_reverse :: "'a tensor4 res \<Rightarrow> int \<Rightarrow> 'a tensor4 res" where
  "K_reverse (Inl e) axis = Inl e"
| "K_reverse (Inr t) axis =
     (let a = (if axis < 0 then axis + 4 else axis) in
      if a = 0 then Inr (t\<lparr>at4 := (\<lambda>b ch i j. at4 t (batch4 t - 1 - b) ch i j)\<rparr>)
      else if a = 1 then Inr (t\<lparr>at4 := (\<lambda>b ch i j. at4 t b (chans4 t - 1 - ch) i j)\<rparr>)
      else if a = 2 then Inr (t\<lparr>at4 := (\<lambda>b ch i j. at4 t b ch (rows4 t - 1 - i) j)\<rparr>)
      else if a = 3 then Inr (t\<lparr>at4 := (\<lambda>b ch i j. at4 t b ch i (cols4 t - 1 - j))\<rparr>)
      else Inl InvalidArgument)"

text \<open>\<^verbatim>\<open>tf.transpose(t, (0, 1, 3, 2))\<close>: height and width change places.\<close>

fun tf_transpose :: "'a tensor4 res \<Rightarrow> 'a tensor4 res" where
  "tf_transpose (Inl e) = Inl e"
| "tf_transpose (Inr t) =
     Inr \<lparr>batch4 = batch4 t, chans4 = chans4 t, rows4 = cols4 t, cols4 = rows4 t,
          at4 = (\<lambda>b ch i j. at4 t b ch j i)\<rparr>"

text \<open>
  \<^verbatim>\<open>K.concatenate(ts, axis)\<close> for tensors of four axes joined along the height (2) or
  the width (3). The list is evaluated from the left; all the other axes must agree.
\<close>

definition join4 :: "nat \<Rightarrow> 'a tensor4 \<Rightarrow> 'a tensor4 \<Rightarrow> 'a tensor4 res" where
  "join4 axis t u =
     (if axis = 2 then
        (if batch4 t = batch4 u \<and> chans4 t = chans4 u \<and> cols4 t = cols4 u
         then Inr \<lparr>batch4 = batch4 t, chans4 = chans4 t,
                   rows4 = rows4 t + rows4 u, cols4 = cols4 t,
                   at4 = (\<lambda>b ch i j. if i < rows4 t then at4 t b ch i j
                                        else at4 u b ch (i - rows4 t) j)\<rparr>
         else Inl InvalidArgument)
      else if axis = 3 then
        (if batch4 t = batch4 u \<and> chans4 t = chans4 u \<and> rows4 t = rows4 u
         then Inr \<lparr>batch4 = batch4 t, chans4 = chans4 t,
                   rows4 = rows4 t, cols4 = cols4 t + cols4 u,
                   at4 = (\<lambda>b ch i j. if j < cols4 t then at4 t b ch i j
                                        else at4 u b ch i (j - cols4 t))\<rparr>
         else Inl InvalidArgument)
      else Inl InvalidArgument)"

fun K_concatenate4 :: "'a tensor4 res list \<Rightarrow> nat \<Rightarrow> 'a tensor4 res" where
  "K_concatenate4 [] axis = Inl InvalidArgument"
| "K_concatenate4 (Inl e # ts) axis = Inl e"
| "K_concatenate4 [Inr t] axis = Inr t"
| "K_concatenate4 (Inr t # ts) axis =
     (case K_concatenate4 ts axis of
        Inl e \<Rightarrow> Inl e
      | Inr u \<Rightarrow> join4 axis t u)"

text \<open>\<^verbatim>\<open>K.expand_dims(t, -1)\<close>: a new last axis of length one.\<close>

fun K_expand_dims :: "'a tensor4 res \<Rightarrow> 'a tensor5 res" where
  "K_expand_dims (Inl e) = Inl e"
| "K_expand_dims (Inr t) =
     Inr \<lparr>batch5 = batch4 t, chans5 = chans4 t, rows5 = rows4 t, cols5 = cols4 t,
          faces5 = 1, at5 = (\<lambda>b ch i j f. at4 t b ch i j)\<rparr>"

text \<open>\<^verbatim>\<open>K.concatenate(ts, axis=-1)\<close> for tensors of five axes: joined along the face axis.\<close>

definition join5 :: "'a tensor5 \<Rightarrow> 'a tensor5 \<Rightarrow> 'a tensor5 res" where
  "join5 t u =
     (if batch5 t = batch5 u \<and> chans5 t = chans5 u \<and> rows5 t = rows5 u \<and> cols5 t = cols5 u
      then Inr \<lparr>batch5 = batch5 t, chans5 = chans5 t, rows5 = rows5 t, cols5 = cols5 t,
                faces5 = faces5 t + faces5 u,
                at5 = (\<lambda>b ch i j f. if f < faces5 t then at5 t b ch i j f
                                      else at5 u b ch i j (f - faces5 t))\<rparr>
      else Inl InvalidArgument)"

fun K_concatenate5 :: "'a tensor5 res list \<Rightarrow> 'a tensor5 res" where
  "K_concatenate5 [] = Inl InvalidArgument"
| "K_concatenate5 (Inl e # ts) = Inl e"
| "K_concatenate5 [Inr t] = Inr t"
| "K_concatenate5 (Inr t # ts) =
     (case K_concatenate5 ts of
        Inl e \<Rightarrow> Inl e
      | Inr u \<Rightarrow> join5 t u)"

section \<open>CubeSpherePadding2D\<close>

text \<open>
  \<^verbatim>\<open>CubeSpherePadding2D.call\<close> (lines 1057-1169), with \<open>p = self.padding[0][0]\<close>. The
  first block pads every face along the height from the raw input; the second pads along
  the width from the height-padded tensor \<open>out1\<close>, and for the two polar faces from the
  already finished equatorial faces \<open>out[3]\<close> and \<open>out[1]\<close>.
\<close>

definition height_pass :: "int \<Rightarrow> 'a tensor5 \<Rightarrow> 'a tensor5 res list" where
  "height_pass p x =
     (let inputs = Inr x in
      [ K_expand_dims (K_concatenate4
          [ slice5 inputs (Range (Some (- p)) None) Full 4,
            slice5 inputs Full Full 0,
            slice5 inputs (Range None (Some p)) Full 5 ] 2),
        K_expand_dims (K_concatenate4
          [ tf_transpose (slice5 inputs Reversed (Range (Some (- p)) None) 4),
            slice5 inputs Full Full 1,
            tf_transpose (K_reverse (slice5 inputs Full (Range (Some (- p)) None) 5) 3) ] 2),
        K_expand_dims (K_concatenate4
          [ K_reverse (slice5 inputs (Range None (Some p)) Reversed 4) 2,
            slice5 inputs Full Full 2,
            K_reverse (slice5 inputs (Range (Some (- p)) None) Reversed 5) 2 ] 2),
        K_expand_dims (K_concatenate4
          [ tf_transpose (K_reverse (slice5 inputs Full (Range None (Some p)) 4) 3),
            slice5 inputs Full Full 3,
            tf_transpose (slice5 inputs Reversed (Range None (Some p)) 5) ] 2),
        K_expand_dims (K_concatenate4
          [ K_reverse (slice5 inputs (Range None (Some p)) Reversed 2) 2,
            slice5 inputs Full Full 4,
            slice5 inputs (Range None (Some p)) Full 0 ] 2),
        K_expand_dims (K_concatenate4
          [ slice5 inputs (Range (Some (- p)) None) Full 0,
            slice5 inputs Full Full 5,
            K_reverse (slice5 inputs (Range (Some (- p)) None) Reversed 2) 2 ] 2) ])"

definition width_pass :: "int \<Rightarrow> 'a tensor5 res \<Rightarrow> 'a tensor5 res list" where
  "width_pass p out1 =
     (let out0 = K_expand_dims (K_concatenate4
          [ slice5 out1 Full (Range (Some (- p)) None) 3,
            slice5 out1 Full Full 0,
            slice5 out1 Full (Range None (Some p)) 1 ] 3);
          out1' = K_expand_dims (K_concatenate4
          [ slice5 out1 Full (Range (Some (- p)) None) 0,
            slice5 out1 Full Full 1,
            slice5 out1 Full (Range None (Some p)) 2 ] 3);
          out2 = K_expand_dims (K_concatenate4
          [ slice5 out1 Full (Range (Some (- p)) None) 1,
            slice5 out1 Full Full 2,
            slice5 out1 Full (Range None (Some p)) 3 ] 3);
          out3 = K_expand_dims (K_concatenate4
          [ slice5 out1 Full (Range (Some (- p)) None) 2,
            slice5 out1 Full Full 3,
            slice5 out1 Full (Range None (Some p)) 0 ] 3);
          out4 = K_expand_dims (K_concatenate4
          [ tf_transpose (K_reverse (slice5 out3 (Range (Some p) (Some (2 * p))) Full 0) 2),
            slice5 out1 Full Full 4,
            tf_transpose (slice5 out1' (Range (Some p) (Some (2 * p))) Reversed 0) ] 3);
          out5 = K_expand_dims (K_concatenate4
          [ tf_transpose (slice5 out3 (Range (Some (- 2 * p)) (Some (- p))) Reversed 0),
            slice5 out1 Full Full 5,
            tf_transpose (K_reverse (slice5 out1' (Range (Some (- 2 * p)) (Some (- p))) Full 0) 2) ] 3)
      in [out0, out1', out2, out3, out4, out5])"

text \<open>
  The layer object: \<open>padding\<close> is \<^verbatim>\<open>self.padding\<close>, three pairs for the height, the
  width and the face axis.
\<close>

record CubeSpherePadding2D =
  padding :: "(int \<times> int) \<times> (int \<times> int) \<times> (int \<times> int)"
  data_format :: string

definition CubeSpherePadding2D_call :: "CubeSpherePadding2D \<Rightarrow> 'a tensor5 \<Rightarrow> 'a tensor5 res" where
  "CubeSpherePadding2D_call self inputs =
     (let p = fst (fst (padding self));
          out1 = K_concatenate5 (height_pass p inputs)
      in K_concatenate5 (width_pass p out1))"

text \<open>Reading one element of a result: it fails when the computation failed or the index is
  outside the shape.\<close>

definition cell4 :: "'a tensor4 res \<Rightarrow> nat \<Rightarrow> nat \<Rightarrow> nat \<Rightarrow> nat \<Rightarrow> 'a option" where
  "cell4 r b ch i j =
     (case r of
        Inl e \<Rightarrow> None
      | Inr t \<Rightarrow> if b < batch4 t \<and> ch < chans4 t \<and> i < rows4 t \<and> j < cols4 t
                 then Some (at4 t b ch i j) else None)"

definition cell5 :: "'a tensor5 res \<Rightarrow> nat \<Rightarrow> nat \<Rightarrow> nat \<Rightarrow> nat \<Rightarrow> nat \<Rightarrow> 'a option" where
  "cell5 r b ch i j f =
     (case r of
        Inl e \<Rightarrow> None
      | Inr t \<Rightarrow> if b < batch5 t \<and> ch < chans5 t \<and> i < rows5 t \<and> j < cols5 t \<and> f < faces5 t
                 then Some (at5 t b ch i j f) else None)"

definition shape5 :: "'a tensor5 res \<Rightarrow> nat list option" where
  "shape5 r =
     (case r of
        Inl e \<Rightarrow> None
      | Inr t \<Rightarrow> Some [batch5 t, chans5 t, rows5 t, cols5 t, faces5 t])"

subsection \<open>The adjacency that the two passes encode\<close>

text \<open>
  The source has no adjacency table: each of the 24 halo strips is a slice of one face,
  taken at one of its edges and reoriented. Read off the slices, the table is
  \<open>neighbor\<close>: the halo of face \<open>f\<close> beyond its edge \<open>e\<close> is filled from the strip of
  face \<open>g\<close> along its edge \<open>e2\<close>, after the transform \<open>t\<close>. Four reorientations occur in
  the source: none; both axes reversed (\<^verbatim>\<open>K.reverse(x[..., ::-1, ...], 2)\<close>); the height
  reversed, then transposed (\<^verbatim>\<open>tf.transpose(x[:, :, ::-1, ...])\<close> or
  \<^verbatim>\<open>tf.transpose(K.reverse(..., 2))\<close>); the width reversed, then transposed. The lemmas
  \<open>height_pass_neighbor\<close>, \<open>width_pass_neighbor\<close>, \<open>width_pass_neighbor_polar\<close> and
  \<open>halo_is_neighbor_strip\<close> below check the table against the code.
\<close>

datatype edge = Top | Bottom | Left | Right

datatype transform = Identity | Reverse | TransposeRevRows | TransposeRevCols

definition neighbor :: "nat \<Rightarrow> edge \<Rightarrow> (nat \<times> edge \<times> transform) option" where
  "neighbor f e =
     (if f = 0 then Some (case e of
          Top \<Rightarrow> (4, Bottom, Identity) | Bottom \<Rightarrow> (5, Top, Identity)
        | Left \<Rightarrow> (3, Right, Identity) | Right \<Rightarrow> (1, Left, Identity))
      else if f = 1 then Some (case e of
          Top \<Rightarrow> (4, Right, TransposeRevRows) | Bottom \<Rightarrow> (5, Right, TransposeRevCols)
        | Left \<Rightarrow> (0, Right, Identity) | Right \<Rightarrow> (2, Left, Identity))
      else if f = 2 then Some (case e of
          Top \<Rightarrow> (4, Top, Reverse) | Bottom \<Rightarrow> (5, Bottom, Reverse)
        | Left \<Rightarrow> (1, Right, Identity) | Right \<Rightarrow> (3, Left, Identity))
      else if f = 3 then Some (case e of
          Top \<Rightarrow> (4, Left, TransposeRevCols) | Bottom \<Rightarrow> (5, Left, TransposeRevRows)
        | Left \<Rightarrow> (2, Right, Identity) | Right \<Rightarrow> (0, Left, Identity))
      else if f = 4 then Some (case e of
          Top \<Rightarrow> (2, Top, Reverse) | Bottom \<Rightarrow> (0, Top, Identity)
        | Left \<Rightarrow> (3, Top, TransposeRevRows) | Right \<Rightarrow> (1, Top, TransposeRevCols))
      else if f = 5 then Some (case e of
          Top \<Rightarrow> (0, Bottom, Identity) | Bottom \<Rightarrow> (2, Bottom, Reverse)
        | Left \<Rightarrow> (3, Bottom, TransposeRevCols) | Right \<Rightarrow> (1, Bottom, TransposeRevRows))
      else None)"


fun apply_transform :: "transform \<Rightarrow> 'a tensor4 res \<Rightarrow> 'a tensor4 res" where
  "apply_transform Identity s = s"
| "apply_transform Reverse s = K_reverse (K_reverse s 3) 2"
| "apply_transform TransposeRevRows s = tf_transpose (K_reverse s 2)"
| "apply_transform TransposeRevCols s = tf_transpose (K_reverse s 3)"

text \<open>The strip of depth \<open>p\<close> along an edge of face \<open>g\<close> of \<open>x\<close>.\<close>

fun edge_strip :: "edge \<Rightarrow> int \<Rightarrow> 'a tensor5 res \<Rightarrow> nat \<Rightarrow> 'a tensor4 res" where
  "edge_strip Top p x g = slice5 x (Range None (Some p)) Full g"
| "edge_strip Bottom p x g = slice5 x (Range (Some (- p)) None) Full g"
| "edge_strip Left p x g = slice5 x Full (Range None (Some p)) g"
| "edge_strip Right p x g = slice5 x Full (Range (Some (- p)) None) g"

definition halo_source :: "int \<Rightarrow> 'a tensor5 res \<Rightarrow> nat \<Rightarrow> edge \<Rightarrow> 'a tensor4 res" where
  "halo_source p x f e =
     (case neighbor f e of
        None \<Rightarrow> Inl InvalidArgument
      | Some (g, e2, t) \<Rightarrow> apply_transform t (edge_strip e2 p x g))"

text \<open>
  The same strip taken from a face that already carries a halo of width \<open>p\<close> on all four
  sides: the outermost \<open>p\<close> proper rows (or columns), over the whole padded length of the
  edge. This is how the source reads \<^verbatim>\<open>out[3][:, :, p:2*p, :, 0]\<close> and
  \<^verbatim>\<open>out[3][:, :, -2*p:-p, ::-1, 0]\<close>.
\<close>

fun padded_strip :: "edge \<Rightarrow> int \<Rightarrow> 'a tensor5 res \<Rightarrow> nat \<Rightarrow> 'a tensor4 res" where
  "padded_strip Top p y g = slice5 y (Range (Some p) (Some (2 * p))) Full g"
| "padded_strip Bottom p y g = slice5 y (Range (Some (- 2 * p)) (Some (- p))) Full g"
| "padded_strip Left p y g = slice5 y Full (Range (Some p) (Some (2 * p))) g"
| "padded_strip Right p y g = slice5 y Full (Range (Some (- 2 * p)) (Some (- p))) g"

text \<open>
  One hop from face \<open>f\<close> across its edge \<open>e\<close> into the padded output \<open>y\<close>: the strip of
  the neighbour, halo included, in the orientation of \<open>f\<close>. Its cells over a corner of
  \<open>f\<close> lie in the halo of the neighbour, so they hold what a second hop brought there.
\<close>

definition padded_halo :: "int \<Rightarrow> 'a tensor5 res \<Rightarrow> nat \<Rightarrow> edge \<Rightarrow> 'a tensor4 res" where
  "padded_halo p y f e =
     (case neighbor f e of
        None \<Rightarrow> Inl InvalidArgument
      | Some (g, e2, t) \<Rightarrow> apply_transform t (padded_strip e2 p y g))"

text \<open>
  Where the halo beyond an edge lies in a padded face. For a face of size \<open>n\<close> with a halo
  of width \<open>q\<close>, the strip beyond the top or bottom edge has \<open>q\<close> rows and \<open>n\<close> columns, the
  strip beyond the left or right edge \<open>n\<close> rows and \<open>q\<close> columns (the corners belong to
  neither); \<open>halo_cell\<close> is the position in the padded face of the cell \<open>(i, j)\<close> of that
  strip.
\<close>

fun in_strip :: "edge \<Rightarrow> nat \<Rightarrow> nat \<Rightarrow> nat \<Rightarrow> nat \<Rightarrow> bool" where
  "in_strip Top q n i j = (i < q \<and> j < n)"
| "in_strip Bottom q n i j = (i < q \<and> j < n)"
| "in_strip Left q n i j = (i < n \<and> j < q)"
| "in_strip Right q n i j = (i < n \<and> j < q)"

fun halo_cell :: "edge \<Rightarrow> nat \<Rightarrow> nat \<Rightarrow> nat \<Rightarrow> nat \<Rightarrow> nat \<times> nat" where
  "halo_cell Top q n i j = (i, q + j)"
| "halo_cell Bottom q n i j = (q + n + i, q + j)"
| "halo_cell Left q n i j = (q + i, j)"
| "halo_cell Right q n i j = (q + i, q + n + j)"

text \<open>On a cube every face has one opposite face, which it does not touch: the equatorial
  faces \<open>f\<close> and \<open>f + 2\<close>, and the two poles.\<close>

definition opposite_face :: "nat \<Rightarrow> nat" where
  "opposite_face f = (if f < 4 then (f + 2) mod 4 else 9 - f)"

text \<open>The edge that an edge of a face becomes when the face is reversed along its height.\<close>

definition mirrored_edge :: "edge \<Rightarrow> edge" where
  "mirrored_edge e = (case e of Top \<Rightarrow> Bottom | Bottom \<Rightarrow> Top | Left \<Rightarrow> Left | Right \<Rightarrow> Right)"

text \<open>The edge that a border cell \<open>(i, j)\<close> of a face of size \<open>n\<close> with a halo of width 1
  lies beyond; a corner cell is counted with the top or bottom row.\<close>

definition edge_of_cell :: "nat \<Rightarrow> nat \<Rightarrow> nat \<Rightarrow> edge" where
  "edge_of_cell n i j =
     (if i = 0 then Top else if i = n + 1 then Bottom else if j = 0 then Left else Right)"

subsection \<open>Construction of the padding layer\<close>

text \<open>
  \<^verbatim>\<open>CubeSpherePadding2D.__init__\<close> (lines 1041-1055) first calls two functions of Keras
  that are not part of this repository. They are modelled after Keras 2:
  \<^item> \<^verbatim>\<open>K.normalize_data_format(value)\<close>: \<^verbatim>\<open>None\<close> stands for the global
    \<^verbatim>\<open>image_data_format()\<close> (the first argument here); the value is lower-cased and
    must be one of the two known layouts;
  \<^item> \<^verbatim>\<open>ZeroPadding3D.__init__\<close>: an integer \<open>p\<close> becomes three pairs \<open>(p, p)\<close>; a
    sequence must have three entries, each an integer or a pair
    (\<^verbatim>\<open>conv_utils.normalize_tuple(entry, 2, ...)\<close>).
\<close>

definition and_then :: "'a res \<Rightarrow> ('a \<Rightarrow> 'b res) \<Rightarrow> 'b res" where
  "and_then m k = (case m of Inl e \<Rightarrow> Inl e | Inr v \<Rightarrow> k v)"

definition lower_char :: "char \<Rightarrow> char" where
  "lower_char c =
     (let k = (of_char c :: nat) in if 65 \<le> k \<and> k \<le> 90 then char_of (k + 32) else c)"

definition normalize_data_format :: "string \<Rightarrow> string option \<Rightarrow> string res" where
  "normalize_data_format image_data_format v =
     (let value = (case v of None \<Rightarrow> image_data_format | Some s \<Rightarrow> s);
          data_format = map lower_char value
      in if data_format \<noteq> ''channels_first'' \<and> data_format \<noteq> ''channels_last''
         then Inl ValueError else Inr data_format)"

datatype tuple_arg = AnInt int | ASeq "int list"

fun normalize_tuple :: "tuple_arg \<Rightarrow> nat \<Rightarrow> int list res" where
  "normalize_tuple (AnInt v) n = Inr (replicate n v)"
| "normalize_tuple (ASeq vs) n = (if length vs \<noteq> n then Inl ValueError else Inr vs)"

datatype padding_arg = PaddingInt int | PaddingSeq "tuple_arg list"

definition as_pair :: "int list res \<Rightarrow> (int \<times> int) res" where
  "as_pair r = and_then r (\<lambda>vs. case vs of [a, b] \<Rightarrow> Inr (a, b) | _ \<Rightarrow> Inl ValueError)"

fun ZeroPadding3D_init :: "padding_arg \<Rightarrow> ((int \<times> int) \<times> (int \<times> int) \<times> (int \<times> int)) res" where
  "ZeroPadding3D_init (PaddingInt p) = Inr ((p, p), (p, p), (p, p))"
| "ZeroPadding3D_init (PaddingSeq [e1, e2, e3]) =
     and_then (as_pair (normalize_tuple e1 2)) (\<lambda>dim1_padding.
     and_then (as_pair (normalize_tuple e2 2)) (\<lambda>dim2_padding.
     and_then (as_pair (normalize_tuple e3 2)) (\<lambda>dim3_padding.
       Inr (dim1_padding, dim2_padding, dim3_padding))))"
| "ZeroPadding3D_init (PaddingSeq es) = Inl ValueError"

definition CubeSpherePadding2D_init ::
    "string \<Rightarrow> padding_arg \<Rightarrow> string option \<Rightarrow> CubeSpherePadding2D res" where
  "CubeSpherePadding2D_init image_data_format padding_arg data_format_arg =
     and_then (normalize_data_format image_data_format data_format_arg) (\<lambda>data_format.
       if data_format \<noteq> ''channels_first'' then Inl ValueError
       else and_then (ZeroPadding3D_init padding_arg) (\<lambda>pad.
         if fst pad \<noteq> fst (snd pad) then Inl ValueError
         else if fst (fst pad) \<noteq> snd (fst pad) then Inl ValueError
         else Inr \<lparr>padding = (fst pad, fst (snd pad), (0, 0)), data_format = data_format\<rparr>))"

section \<open>CubeSphereConv2D\<close>

text \<open>
  The layer object (lines 795-842). Weights are values of a type \<open>'w\<close> of the host
  framework and are \<^verbatim>\<open>None\<close> until \<^verbatim>\<open>build\<close> allocates them. The initializer, regularizer
  and constraint arguments are only handed on to \<^verbatim>\<open>add_weight\<close> and are left out.
  \<^verbatim>\<open>self.padding\<close> and \<^verbatim>\<open>self.data_format\<close> are the fields \<open>conv_padding\<close> and
  \<open>conv_data_format\<close>.
\<close>

record ('a, 'w) CubeSphereConv2D =
  filters :: int
  kernel_size :: "int list"
  strides :: "int list"
  conv_padding :: string
  conv_data_format :: string
  dilation_rate :: "int list"
  activation :: "('a tensor5 \<Rightarrow> 'a tensor5) option"
  use_bias :: bool
  flip_north_pole :: bool
  independent_north_pole :: bool
  equatorial_kernel :: "'w option"
  equatorial_bias :: "'w option"
  polar_kernel :: "'w option"
  polar_bias :: "'w option"
  north_pole_kernel :: "'w option"
  north_pole_bias :: "'w option"
  built :: bool

text \<open>
  Keras functions used by the constructor, modelled after Keras 2 with the TensorFlow
  backend: \<^verbatim>\<open>conv_utils.normalize_padding\<close> lower-cases and admits \<^verbatim>\<open>valid\<close>, \<^verbatim>\<open>same\<close>
  and \<^verbatim>\<open>causal\<close>; \<^verbatim>\<open>activations.get(None)\<close> is the function \<^verbatim>\<open>linear\<close>, the identity.
\<close>

definition normalize_padding :: "string \<Rightarrow> string res" where
  "normalize_padding v =
     (let padding = map lower_char v
      in if padding \<noteq> ''valid'' \<and> padding \<noteq> ''same'' \<and> padding \<noteq> ''causal''
         then Inl ValueError else Inr padding)"

definition activations_get ::
    "('a tensor5 \<Rightarrow> 'a tensor5) option \<Rightarrow> ('a tensor5 \<Rightarrow> 'a tensor5) option" where
  "activations_get identifier = (case identifier of None \<Rightarrow> Some (\<lambda>x. x) | Some a \<Rightarrow> Some a)"

definition CubeSphereConv2D_init ::
    "string \<Rightarrow> int \<Rightarrow> tuple_arg \<Rightarrow> tuple_arg \<Rightarrow> string \<Rightarrow> string option \<Rightarrow> tuple_arg \<Rightarrow>
     ('a tensor5 \<Rightarrow> 'a tensor5) option \<Rightarrow> bool \<Rightarrow> bool \<Rightarrow> bool \<Rightarrow> ('a, 'w) CubeSphereConv2D res" where
  "CubeSphereConv2D_init image_data_format filters_arg kernel_size_arg strides_arg padding_arg
       data_format_arg dilation_rate_arg activation_arg use_bias_arg flip_north_pole_arg
       independent_north_pole_arg =
     and_then (normalize_tuple kernel_size_arg 2) (\<lambda>ks.
     and_then (normalize_tuple strides_arg 2) (\<lambda>st.
     and_then (normalize_padding padding_arg) (\<lambda>pd.
     and_then (normalize_data_format image_data_format data_format_arg) (\<lambda>df.
       if df \<noteq> ''channels_first'' then Inl ValueError
       else and_then (normalize_tuple dilation_rate_arg 2) (\<lambda>dr.
         Inr \<lparr>filters = filters_arg, kernel_size = ks, strides = st, conv_padding = pd,
              conv_data_format = df, dilation_rate = dr,
              activation = activations_get activation_arg,
              use_bias = use_bias_arg, flip_north_pole = flip_north_pole_arg,
              independent_north_pole = independent_north_pole_arg,
              equatorial_kernel = None, equatorial_bias = None,
              polar_kernel = None, polar_bias = None,
              north_pole_kernel = None, north_pole_bias = None,
              built = False\<rparr>)))))"

text \<open>
  Python indexing of a sequence: a negative index counts from the end, an index outside
  the sequence raises \<^verbatim>\<open>IndexError\<close>. \<open>py_sublist\<close> is \<^verbatim>\<open>xs[a:b]\<close>.
\<close>

definition py_index :: "'a list \<Rightarrow> int \<Rightarrow> 'a res" where
  "py_index xs i =
     (if 0 \<le> i \<and> i < int (length xs) then Inr (xs ! nat i)
      else if i < 0 \<and> - int (length xs) \<le> i then Inr (xs ! nat (int (length xs) + i))
      else Inl IndexError)"


text \<open>
  \<^verbatim>\<open>build\<close> (lines 844-892). A shape is a list of dimensions, \<^verbatim>\<open>None\<close> for one that is
  not known yet. \<open>add_weight shape name\<close> is the host framework's allocation.
\<close>

definition CubeSphereConv2D_build ::
    "(int list \<Rightarrow> string \<Rightarrow> 'w) \<Rightarrow> ('a, 'w) CubeSphereConv2D \<Rightarrow> int option list \<Rightarrow>
     ('a, 'w) CubeSphereConv2D res" where
  "CubeSphereConv2D_build add_weight self input_shape =
     (let channel_axis = (if conv_data_format self = ''channels_first'' then 1 else - 1)
      in and_then (py_index input_shape channel_axis) (\<lambda>d.
           case d of
             None \<Rightarrow> Inl ValueError
           | Some input_dim \<Rightarrow>
               (let kernel_shape = kernel_size self @ [input_dim, filters self];
                    s1 = self\<lparr>equatorial_kernel := Some (add_weight kernel_shape ''equatorial_kernel''),
                              polar_kernel := Some (add_weight kernel_shape ''polar_kernel'')\<rparr>;
                    s2 = (if independent_north_pole self
                          then s1\<lparr>north_pole_kernel := Some (add_weight kernel_shape ''polar_kernel'')\<rparr>
                          else s1);
                    s3 = (if use_bias self
                          then (let s = s2\<lparr>equatorial_bias := Some (add_weight [filters self] ''equatorial_bias''),
                                          polar_bias := Some (add_weight [filters self] ''polar_bias'')\<rparr>
                                in if independent_north_pole self
                                   then s\<lparr>north_pole_bias := Some (add_weight [filters self] ''polar_bias'')\<rparr>
                                   else s)
                          else s2)
                in Inr (s3\<lparr>built := True\<rparr>))))"

text \<open>
  \<^verbatim>\<open>call\<close> (lines 894-973). \<open>conv2d\<close> and \<open>bias_add\<close> are \<^verbatim>\<open>K.conv2d\<close> and \<^verbatim>\<open>K.bias_add\<close> of
  the host framework, taken as parameters. \<open>face_outputs\<close> is the list \<^verbatim>\<open>outputs\<close> just
  before it is concatenated.
\<close>

definition face_outputs ::
    "('a tensor4 res \<Rightarrow> 'w option \<Rightarrow> int list \<Rightarrow> string \<Rightarrow> string \<Rightarrow> int list \<Rightarrow> 'a tensor4 res) \<Rightarrow>
     ('a tensor4 res \<Rightarrow> 'w option \<Rightarrow> string \<Rightarrow> 'a tensor4 res) \<Rightarrow>
     ('a, 'w) CubeSphereConv2D \<Rightarrow> 'a tensor5 \<Rightarrow> 'a tensor5 res list" where
  "face_outputs conv2d bias_add self x =
     (let inputs = Inr x;
          equatorial = (\<lambda>f.
            (let out = conv2d (slice5 inputs Full Full f) (equatorial_kernel self)
                         (strides self) (conv_padding self) (conv_data_format self)
                         (dilation_rate self);
                 out = (if use_bias self
                        then bias_add out (equatorial_bias self) (conv_data_format self)
                        else out)
             in K_expand_dims out));
          south =
            (let out = conv2d (slice5 inputs Full Full 4) (polar_kernel self)
                         (strides self) (conv_padding self) (conv_data_format self)
                         (dilation_rate self);
                 out = (if use_bias self
                        then bias_add out (polar_bias self) (conv_data_format self)
                        else out)
             in K_expand_dims out);
          north =
            (let out = (if flip_north_pole self
                        then conv2d (K_reverse (slice5 inputs Full Full 5) (- 2))
                               (if independent_north_pole self then north_pole_kernel self
                                else polar_kernel self)
                               (strides self) (conv_padding self) (conv_data_format self)
                               (dilation_rate self)
                        else conv2d (slice5 inputs Full Full 5)
                               (if independent_north_pole self then north_pole_kernel self
                                else polar_kernel self)
                               (strides self) (conv_padding self) (conv_data_format self)
                               (dilation_rate self));
                 out = (if use_bias self
                        then bias_add out
                               (if independent_north_pole self then north_pole_bias self
                                else polar_bias self)
                               (conv_data_format self)
                        else out);
                 out = (if flip_north_pole self then K_reverse out (- 2) else out)
             in K_expand_dims out)
      in map equatorial [0 ..< 4] @ [south, north])"

definition CubeSphereConv2D_call ::
    "('a tensor4 res \<Rightarrow> 'w option \<Rightarrow> int list \<Rightarrow> string \<Rightarrow> string \<Rightarrow> int list \<Rightarrow> 'a tensor4 res) \<Rightarrow>
     ('a tensor4 res \<Rightarrow> 'w option \<Rightarrow> string \<Rightarrow> 'a tensor4 res) \<Rightarrow>
     ('a, 'w) CubeSphereConv2D \<Rightarrow> 'a tensor5 \<Rightarrow> 'a tensor5 res" where
  "CubeSphereConv2D_call conv2d bias_add self x =
     (let outputs = K_concatenate5 (face_outputs conv2d bias_add self x)
      in case activation self of
           Some a \<Rightarrow> (case outputs of Inl e \<Rightarrow> Inl e | Inr t \<Rightarrow> Inr (a t))
         | None \<Rightarrow> outputs)"




subsection \<open>What the specification compares the layer with\<close>

text \<open>
  The "plain 2D convolution" of one face with a kernel, plus the bias when the layer uses
  one, as the specification words it; and the "standard convolution arithmetic" of the
  output length of one axis: the ceiling of \<open>(len - (k - 1) * d) / s\<close> for \<^verbatim>\<open>valid\<close>
  padding and of \<open>len / s\<close> for \<^verbatim>\<open>same\<close>.
\<close>

definition plain_conv2d ::
    "('a tensor4 res \<Rightarrow> 'w option \<Rightarrow> int list \<Rightarrow> string \<Rightarrow> string \<Rightarrow> int list \<Rightarrow> 'a tensor4 res) \<Rightarrow>
     ('a tensor4 res \<Rightarrow> 'w option \<Rightarrow> string \<Rightarrow> 'a tensor4 res) \<Rightarrow>
     ('a, 'w) CubeSphereConv2D \<Rightarrow> 'w option \<Rightarrow> 'w option \<Rightarrow> 'a tensor4 res \<Rightarrow> 'a tensor4 res" where
  "plain_conv2d conv2d bias_add self the_kernel the_bias face =
     (if use_bias self
      then bias_add (conv2d face the_kernel (strides self) (conv_padding self)
                       (conv_data_format self) (dilation_rate self))
             the_bias (conv_data_format self)
      else conv2d face the_kernel (strides self) (conv_padding self)
             (conv_data_format self) (dilation_rate self))"

definition standard_conv_length :: "string \<Rightarrow> int \<Rightarrow> int \<Rightarrow> int \<Rightarrow> int \<Rightarrow> int" where
  "standard_conv_length padding_mode len k s d =
     (if padding_mode = ''valid'' then (len - (k - 1) * d + s - 1) div s
      else (len + s - 1) div s)"

text \<open>The activation that the layer applies to the concatenated faces.\<close>

definition applied_activation :: "('a, 'w) CubeSphereConv2D \<Rightarrow> 'a tensor5 \<Rightarrow> 'a tensor5" where
  "applied_activation self = (case activation self of Some a \<Rightarrow> a | None \<Rightarrow> (\<lambda>t. t))"

text \<open>
  The output that the specification asks of face \<open>f\<close>: the plain convolution of input face
  \<open>f\<close> with the kernel and bias of its group, the north face between two reversals along
  the height when the layer flips it.
\<close>

definition per_face_output ::
    "('a tensor4 res \<Rightarrow> 'w option \<Rightarrow> int list \<Rightarrow> string \<Rightarrow> string \<Rightarrow> int list \<Rightarrow> 'a tensor4 res) \<Rightarrow>
     ('a tensor4 res \<Rightarrow> 'w option \<Rightarrow> string \<Rightarrow> 'a tensor4 res) \<Rightarrow>
     ('a, 'w) CubeSphereConv2D \<Rightarrow> 'a tensor5 \<Rightarrow> nat \<Rightarrow> 'a tensor4 res" where
  "per_face_output conv2d bias_add self x f =
     (if f < 4 then
        plain_conv2d conv2d bias_add self (equatorial_kernel self) (equatorial_bias self)
          (slice5 (Inr x) Full Full f)
      else if f = 4 then
        plain_conv2d conv2d bias_add self (polar_kernel self) (polar_bias self)
          (slice5 (Inr x) Full Full 4)
      else if flip_north_pole self then
        K_reverse (plain_conv2d conv2d bias_add self
            (if independent_north_pole self then north_pole_kernel self else polar_kernel self)
            (if independent_north_pole self then north_pole_bias self else polar_bias self)
            (K_reverse (slice5 (Inr x) Full Full 5) 2)) 2
      else
        plain_conv2d conv2d bias_add self
          (if independent_north_pole self then north_pole_kernel self else polar_kernel self)
          (if independent_north_pole self then north_pole_bias self else polar_bias self)
          (slice5 (Inr x) Full Full 5))"

section \<open>Example values\<close>

text \<open>The layer that the constructor returns for \<^verbatim>\<open>padding=p\<close>, and the synthetic tensor of
  one batch entry and one channel whose face \<open>f\<close> holds \<open>f\<close> everywhere.\<close>

definition padder :: "int \<Rightarrow> CubeSpherePadding2D" where
  "padder p = \<lparr>padding = ((p, p), (p, p), (0, 0)), data_format = ''channels_first''\<rparr>"

definition face_index_tensor :: "nat \<Rightarrow> nat tensor5" where
  "face_index_tensor n =
     \<lparr>batch5 = 1, chans5 = 1, rows5 = n, cols5 = n, faces5 = 6, at5 = (\<lambda>b ch i j f. f)\<rparr>"

text \<open>A tensor whose cells all differ: cell \<open>(i, j)\<close> of face \<open>f\<close> holds \<open>100 f + 10 i + j\<close>.\<close>

definition coordinate_tensor :: "nat \<Rightarrow> nat tensor5" where
  "coordinate_tensor n =
     \<lparr>batch5 = 1, chans5 = 1, rows5 = n, cols5 = n, faces5 = 6,
      at5 = (\<lambda>b ch i j f. 100 * f + 10 * i + j)\<rparr>"

text \<open>
  A reference convolution over integers, used to run the layer on examples: weights are a
  shape and a function from index lists; the kernel has shape
  \<open>[kh, kw, in_channels, out_channels]\<close>, a bias \<open>[out_channels]\<close>. It is the
  cross-correlation that \<^verbatim>\<open>K.conv2d\<close> computes for \<^verbatim>\<open>channels_first\<close> data, with zeros
  outside the face for \<^verbatim>\<open>same\<close> padding.
\<close>

datatype weights = Weights "nat list" "nat list \<Rightarrow> int"

definition tap :: "int tensor4 \<Rightarrow> nat \<Rightarrow> nat \<Rightarrow> int \<Rightarrow> int \<Rightarrow> int" where
  "tap t b c r k =
     (if 0 \<le> r \<and> r < int (rows4 t) \<and> 0 \<le> k \<and> k < int (cols4 t)
      then at4 t b c (nat r) (nat k) else 0)"

definition pad_before :: "string \<Rightarrow> int \<Rightarrow> int \<Rightarrow> int \<Rightarrow> int \<Rightarrow> int" where
  "pad_before padding_mode len k s d =
     (if padding_mode = ''valid'' then 0
      else max ((standard_conv_length padding_mode len k s d - 1) * s + (k - 1) * d + 1 - len) 0 div 2)"

definition conv2d_ref ::
    "int tensor4 res \<Rightarrow> weights option \<Rightarrow> int list \<Rightarrow> string \<Rightarrow> string \<Rightarrow> int list \<Rightarrow> int tensor4 res" where
  "conv2d_ref r w st pd df dl =
     (case r of
        Inl e \<Rightarrow> Inl e
      | Inr t \<Rightarrow>
         (case w of
            None \<Rightarrow> Inl InvalidArgument
          | Some (Weights shape vals) \<Rightarrow>
              if length shape \<noteq> 4 \<or> length st \<noteq> 2 \<or> length dl \<noteq> 2 then Inl InvalidArgument
              else
                (let kh = shape ! 0; kw = shape ! 1; cin = shape ! 2; cout = shape ! 3;
                     sh = st ! 0; sw = st ! 1; dh = dl ! 0; dw = dl ! 1;
                     oh = standard_conv_length pd (int (rows4 t)) (int kh) sh dh;
                     ow = standard_conv_length pd (int (cols4 t)) (int kw) sw dw;
                     ph = pad_before pd (int (rows4 t)) (int kh) sh dh;
                     pw = pad_before pd (int (cols4 t)) (int kw) sw dw
                 in if cin \<noteq> chans4 t \<or> df \<noteq> ''channels_first'' \<or> sh < 1 \<or> sw < 1
                       \<or> dh < 1 \<or> dw < 1 \<or> (pd \<noteq> ''valid'' \<and> pd \<noteq> ''same'') \<or> oh < 0 \<or> ow < 0
                    then Inl InvalidArgument
                    else Inr \<lparr>batch4 = batch4 t, chans4 = cout, rows4 = nat oh, cols4 = nat ow,
                              at4 = (\<lambda>b out i j.
                                sum_list (map (\<lambda>c.
                                  sum_list (map (\<lambda>u.
                                    sum_list (map (\<lambda>v.
                                      tap t b c (int i * sh + int u * dh - ph)
                                                (int j * sw + int v * dw - pw)
                                        * vals [u, v, c, out])
                                      [0 ..< kw]))
                                    [0 ..< kh]))
                                  [0 ..< cin]))\<rparr>)))"

definition bias_add_ref :: "int tensor4 res \<Rightarrow> weights option \<Rightarrow> string \<Rightarrow> int tensor4 res" where
  "bias_add_ref r w df =
     (case r of
        Inl e \<Rightarrow> Inl e
      | Inr t \<Rightarrow>
         (case w of
            None \<Rightarrow> Inl InvalidArgument
          | Some (Weights shape vals) \<Rightarrow>
              if shape \<noteq> [chans4 t] \<or> df \<noteq> ''channels_first'' then Inl InvalidArgument
              else Inr (t\<lparr>at4 := (\<lambda>b out i j. at4 t b out i j + vals [out])\<rparr>)))"

definition relu :: "int tensor5 \<Rightarrow> int tensor5" where
  "relu t = t\<lparr>at5 := (\<lambda>b c i j f. max 0 (at5 t b c i j f))\<rparr>"

text \<open>
  Three built layers. \<open>shift_layer\<close> has a 2 x 1 kernel that reads the lower of two rows,
  no bias, no activation beyond \<^verbatim>\<open>linear\<close>, and flips the north pole. \<open>relu_layer\<close> has
  the 1 x 1 unit kernel and the activation \<^verbatim>\<open>relu\<close>. \<open>example_layer\<close> is the layer of the
  specification's end-to-end example: 4 filters, a 3 x 3 kernel, \<^verbatim>\<open>valid\<close> padding, stride
  1, on 2 input channels.
\<close>

definition base_layer :: "(int, weights) CubeSphereConv2D" where
  "base_layer =
     \<lparr>filters = 1, kernel_size = [1, 1], strides = [1, 1], conv_padding = ''valid'',
      conv_data_format = ''channels_first'', dilation_rate = [1, 1],
      activation = Some (\<lambda>t. t), use_bias = False, flip_north_pole = True,
      independent_north_pole = False,
      equatorial_kernel = Some (Weights [1, 1, 1, 1] (\<lambda>ix. 1)), equatorial_bias = None,
      polar_kernel = Some (Weights [1, 1, 1, 1] (\<lambda>ix. 1)), polar_bias = None,
      north_pole_kernel = None, north_pole_bias = None, built = True\<rparr>"

definition shift_layer :: "(int, weights) CubeSphereConv2D" where
  "shift_layer =
     base_layer\<lparr>kernel_size := [2, 1],
                equatorial_kernel := Some (Weights [2, 1, 1, 1] (\<lambda>ix. if ix ! 0 = 1 then 1 else 0)),
                polar_kernel := Some (Weights [2, 1, 1, 1] (\<lambda>ix. if ix ! 0 = 1 then 1 else 0))\<rparr>"

definition relu_layer :: "(int, weights) CubeSphereConv2D" where
  "relu_layer = base_layer\<lparr>activation := Some relu\<rparr>"


text \<open>
  The same layer before \<^verbatim>\<open>build\<close>, an allocation of weights for the reference convolution
  (every weight 1), the shape of such a weight, and the layer that \<^verbatim>\<open>build\<close> makes of it for
  two input channels.
\<close>

definition unbuilt_layer :: "(int, weights) CubeSphereConv2D" where
  "unbuilt_layer =
     base_layer\<lparr>filters := 4, kernel_size := [3, 3], use_bias := True,
                equatorial_kernel := None, polar_kernel := None, built := False\<rparr>"

definition add_weight_ref :: "int list \<Rightarrow> string \<Rightarrow> weights" where
  "add_weight_ref shape name = Weights (map nat shape) (\<lambda>ix. 1)"

fun wshape_ref :: "weights \<Rightarrow> int list" where
  "wshape_ref (Weights shape vals) = map int shape"

definition built_layer :: "(int, weights) CubeSphereConv2D" where
  "built_layer =
     unbuilt_layer\<lparr>equatorial_kernel := Some (add_weight_ref [3, 3, 2, 4] ''equatorial_kernel''),
                   polar_kernel := Some (add_weight_ref [3, 3, 2, 4] ''polar_kernel''),
                   equatorial_bias := Some (add_weight_ref [4] ''equatorial_bias''),
                   polar_bias := Some (add_weight_ref [4] ''polar_bias''),
                   built := True\<rparr>"

text \<open>Inputs: two rows holding 1 and 2 on every face; the constant \<open>- 1\<close>; and a tensor of
  the shape \<open>(1, 2, 8, 8, 6)\<close> of the end-to-end example.\<close>

definition ramp_tensor :: "int tensor5" where
  "ramp_tensor =
     \<lparr>batch5 = 1, chans5 = 1, rows5 = 2, cols5 = 1, faces5 = 6,
      at5 = (\<lambda>b c i j f. int i + 1)\<rparr>"

definition minus_one_tensor :: "int tensor5" where
  "minus_one_tensor =
     \<lparr>batch5 = 1, chans5 = 1, rows5 = 1, cols5 = 1, faces5 = 6,
      at5 = (\<lambda>b c i j f. - 1)\<rparr>"

definition example_tensor :: "int tensor5" where
  "example_tensor =
     \<lparr>batch5 = 1, chans5 = 2, rows5 = 8, cols5 = 8, faces5 = 6,
      at5 = (\<lambda>b c i j f. int (i + j + f))\<rparr>"

section \<open>Facts about slices and concatenation\<close>

lemma slice_tail: "1 \<le> q \<Longrightarrow> q \<le> n \<Longrightarrow> py_slice (Some (- int q)) None n = (n - q, q)"
  by (auto simp: py_slice_def clip_index_def Let_def)

lemma slice_head: "q \<le> n \<Longrightarrow> py_slice None (Some (int q)) n = (0, q)"
  by (auto simp: py_slice_def clip_index_def Let_def)

lemma slice_mid: "2 * q \<le> m \<Longrightarrow> py_slice (Some (int q)) (Some (2 * int q)) m = (q, q)"
  by (auto simp: py_slice_def clip_index_def Let_def)

lemma slice_mid_tail:
  "1 \<le> q \<Longrightarrow> 2 * q \<le> m \<Longrightarrow> py_slice (Some (- (2 * int q))) (Some (- int q)) m = (m - 2 * q, q)"
  by (auto simp: py_slice_def clip_index_def Let_def)

lemmas pad_unfold =
  CubeSpherePadding2D_call_def height_pass_def width_pass_def Let_def join4_def join5_def
  slice_tail slice_head slice_mid slice_mid_tail

lemma face_cases: "f < 6 \<Longrightarrow> f = 0 \<or> f = 1 \<or> f = 2 \<or> f = 3 \<or> f = 4 \<or> f = (5::nat)"
  by arith

lemma edge_cases: "e = Top \<or> e = Bottom \<or> e = Left \<or> e = Right"
  by (cases e) simp_all

lemma slice5_Reversed_cols: "slice5 X r Reversed f = K_reverse (slice5 X r Full f) 3"
  by (cases X) simp_all

lemma slice5_Reversed_rows: "slice5 X Reversed c f = K_reverse (slice5 X Full c f) 2"
  by (cases X) simp_all

lemma expand_faces: "K_expand_dims r = Inr t \<Longrightarrow> faces5 t = 1"
  by (cases r) auto

lemma concat6_faces:
  assumes "K_concatenate5 [a0, a1, a2, a3, a4, a5] = Inr y"
    and "\<And>t. a0 = Inr t \<Longrightarrow> faces5 t = 1" "\<And>t. a1 = Inr t \<Longrightarrow> faces5 t = 1"
    and "\<And>t. a2 = Inr t \<Longrightarrow> faces5 t = 1" "\<And>t. a3 = Inr t \<Longrightarrow> faces5 t = 1"
    and "\<And>t. a4 = Inr t \<Longrightarrow> faces5 t = 1" "\<And>t. a5 = Inr t \<Longrightarrow> faces5 t = 1"
  shows "faces5 y = 6"
  using assms
  by (cases a0; cases a1; cases a2; cases a3; cases a4; cases a5)
     (auto simp: join5_def split: if_splits)

section \<open>The padding layer: shape and failures\<close>

lemma call_faces: "CubeSpherePadding2D_call L x = Inr y \<Longrightarrow> faces5 y = 6"
  unfolding CubeSpherePadding2D_call_def width_pass_def Let_def
  by (erule concat6_faces) (erule expand_faces)+

lemma padder_shape:
  assumes "6 \<le> faces5 x" "rows5 x = n" "cols5 x = n" "1 \<le> q" "q \<le> n"
    and "fst (fst (padding L)) = int q"
  shows "shape5 (CubeSpherePadding2D_call L x) = Some [batch5 x, chans5 x, n + 2 * q, n + 2 * q, 6]"
  using assms by (simp add: pad_unfold shape5_def)

lemma not_square_fails:
  assumes "rows5 x \<noteq> cols5 x"
  shows "CubeSpherePadding2D_call L x = Inl InvalidArgument"
  using assms
  by (simp add: CubeSpherePadding2D_call_def height_pass_def width_pass_def Let_def
      join4_def join5_def)

lemma big_halo_fails:
  assumes "rows5 x = n" "cols5 x = n" "1 \<le> n" "int n < p" "p \<noteq> 2 * int n"
    and "fst (fst (padding L)) = p"
  shows "CubeSpherePadding2D_call L x = Inl InvalidArgument"
  using assms
  apply (simp add: CubeSpherePadding2D_call_def height_pass_def width_pass_def Let_def
      join4_def join5_def py_slice_def clip_index_def)
  apply (simp add: max_def split: if_splits)
  apply arith
  done

lemma zero_halo_rejected:
  assumes "rows5 x = n" "cols5 x = n" "1 \<le> n" "fst (fst (padding L)) = 0"
  shows "CubeSpherePadding2D_call L x = Inl InvalidArgument"
  using assms
  by (simp add: CubeSpherePadding2D_call_def height_pass_def width_pass_def Let_def
      join4_def join5_def py_slice_def clip_index_def)

section \<open>The adjacency table against the code\<close>

lemma height_pass_neighbor:
  assumes "f < 6"
  shows "height_pass p x ! f =
     K_expand_dims (K_concatenate4
       [halo_source p (Inr x) f Top, slice5 (Inr x) Full Full f, halo_source p (Inr x) f Bottom] 2)"
  using face_cases[OF assms]
  by (elim disjE) (simp_all add: height_pass_def halo_source_def neighbor_def Let_def)

lemma width_pass_neighbor:
  assumes "f < 4"
  shows "width_pass p out1 ! f =
     K_expand_dims (K_concatenate4
       [halo_source p out1 f Left, slice5 out1 Full Full f, halo_source p out1 f Right] 3)"
proof -
  from assms have "f = 0 \<or> f = 1 \<or> f = 2 \<or> f = 3" by arith
  then show ?thesis
    by (elim disjE) (simp_all add: width_pass_def halo_source_def neighbor_def Let_def)
qed

lemma width_pass_neighbor_polar:
  assumes "f = 4 \<or> f = 5"
    and "neighbor f Left = Some (gl, el, tfl)" "neighbor f Right = Some (gr, er, tfr)"
  shows "width_pass p out1 ! f =
     K_expand_dims (K_concatenate4
       [apply_transform tfl (padded_strip el p (width_pass p out1 ! gl) 0),
        slice5 out1 Full Full f,
        apply_transform tfr (padded_strip er p (width_pass p out1 ! gr) 0)] 3)"
  using assms
  by (elim disjE) (auto simp add: width_pass_def neighbor_def Let_def slice5_Reversed_cols)

lemmas cell_unfold = pad_unfold cell5_def cell4_def halo_source_def neighbor_def

lemma interior_kept:
  assumes "6 \<le> faces5 x" "rows5 x = n" "cols5 x = n" "1 \<le> q" "q \<le> n"
    and "fst (fst (padding L)) = int q"
    and "f < 6" "b < batch5 x" "c < chans5 x" "i < n" "j < n"
  shows "cell5 (CubeSpherePadding2D_call L x) b c (q + i) (q + j) f = Some (at5 x b c i j f)"
  using face_cases[OF \<open>f < 6\<close>] assms
  by (elim disjE) (simp_all add: cell_unfold)

lemma halo_top:
  assumes "6 \<le> faces5 x" "rows5 x = n" "cols5 x = n" "1 \<le> q" "q \<le> n"
    and "fst (fst (padding L)) = int q"
    and "f < 6" "b < batch5 x" "c < chans5 x" "i < q" "j < n"
  shows "\<exists>v. cell5 (CubeSpherePadding2D_call L x) b c i (q + j) f = Some v \<and>
             cell4 (halo_source (int q) (Inr x) f Top) b c i j = Some v"
  using face_cases[OF \<open>f < 6\<close>] assms
  by (elim disjE) (simp_all add: cell_unfold)

lemma halo_bottom:
  assumes "6 \<le> faces5 x" "rows5 x = n" "cols5 x = n" "1 \<le> q" "q \<le> n"
    and "fst (fst (padding L)) = int q"
    and "f < 6" "b < batch5 x" "c < chans5 x" "i < q" "j < n"
  shows "\<exists>v. cell5 (CubeSpherePadding2D_call L x) b c (q + n + i) (q + j) f = Some v \<and>
             cell4 (halo_source (int q) (Inr x) f Bottom) b c i j = Some v"
  using face_cases[OF \<open>f < 6\<close>] assms
  by (elim disjE) (simp_all add: cell_unfold)

lemma halo_left:
  assumes "6 \<le> faces5 x" "rows5 x = n" "cols5 x = n" "1 \<le> q" "q \<le> n"
    and "fst (fst (padding L)) = int q"
    and "f < 6" "b < batch5 x" "c < chans5 x" "i < n" "j < q"
  shows "\<exists>v. cell5 (CubeSpherePadding2D_call L x) b c (q + i) j f = Some v \<and>
             cell4 (halo_source (int q) (Inr x) f Left) b c i j = Some v"
  using face_cases[OF \<open>f < 6\<close>] assms
  by (elim disjE) (auto simp add: cell_unfold)

lemma halo_right:
  assumes "6 \<le> faces5 x" "rows5 x = n" "cols5 x = n" "1 \<le> q" "q \<le> n"
    and "fst (fst (padding L)) = int q"
    and "f < 6" "b < batch5 x" "c < chans5 x" "i < n" "j < q"
  shows "\<exists>v. cell5 (CubeSpherePadding2D_call L x) b c (q + i) (q + n + j) f = Some v \<and>
             cell4 (halo_source (int q) (Inr x) f Right) b c i j = Some v"
  using face_cases[OF \<open>f < 6\<close>] assms
  by (elim disjE) (auto simp add: cell_unfold)

text \<open>
  Together: in the padded output, the halo of face \<open>f\<close> beyond each edge, corners apart,
  is the strip of the neighbouring face that \<open>neighbor\<close> names, reoriented by the
  transform it names.
\<close>

lemma halo_is_neighbor_strip:
  assumes "6 \<le> faces5 x" "rows5 x = n" "cols5 x = n" "1 \<le> q" "q \<le> n"
    and "fst (fst (padding L)) = int q"
    and "f < 6" "b < batch5 x" "c < chans5 x" "i < q" "j < n"
  shows "(\<exists>v. cell5 (CubeSpherePadding2D_call L x) b c i (q + j) f = Some v \<and>
              cell4 (halo_source (int q) (Inr x) f Top) b c i j = Some v) \<and>
         (\<exists>v. cell5 (CubeSpherePadding2D_call L x) b c (q + n + i) (q + j) f = Some v \<and>
              cell4 (halo_source (int q) (Inr x) f Bottom) b c i j = Some v) \<and>
         (\<exists>v. cell5 (CubeSpherePadding2D_call L x) b c (q + j) i f = Some v \<and>
              cell4 (halo_source (int q) (Inr x) f Left) b c j i = Some v) \<and>
         (\<exists>v. cell5 (CubeSpherePadding2D_call L x) b c (q + j) (q + n + i) f = Some v \<and>
              cell4 (halo_source (int q) (Inr x) f Right) b c j i = Some v)"
  using halo_top [OF assms] halo_bottom [OF assms]
    halo_left [OF assms(1-9) assms(11) assms(10)] halo_right [OF assms(1-9) assms(11) assms(10)]
  by blast

section \<open>Halo values of the face-index tensor\<close>

lemma neighbor_is_cube_adjacency:
  assumes "f < 6" "neighbor f e = Some (g, e2, t)"
  shows "g < 6 \<and> g \<noteq> f \<and> g \<noteq> opposite_face f \<and>
         (\<forall>e'. e' \<noteq> e \<longrightarrow> (\<forall>r. neighbor f e' = Some r \<longrightarrow> fst r \<noteq> g))"
  using face_cases[OF \<open>f < 6\<close>] assms(2)
  by (elim disjE; cases e) (auto simp: neighbor_def opposite_face_def split: edge.splits)

lemma neighbor_belt:
  assumes "f < 4"
  shows "neighbor f Right = Some ((f + 1) mod 4, Left, Identity) \<and>
         neighbor f Left = Some ((f + 3) mod 4, Right, Identity) \<and>
         (\<exists>e2 t. neighbor f Top = Some (4, e2, t)) \<and> (\<exists>e2 t. neighbor f Bottom = Some (5, e2, t))"
proof -
  from assms have "f = 0 \<or> f = 1 \<or> f = 2 \<or> f = 3" by arith
  then show ?thesis by (elim disjE) (simp_all add: neighbor_def)
qed

text \<open>
  C1. Take a tensor with six square faces of size \<open>n \<ge> 1\<close> in which face \<open>f\<close> holds the
  value \<open>f\<close> everywhere, and pad it with a halo of width 1. Then every border cell of
  every face holds the index of the face that \<open>neighbor\<close> gives for the edge the cell
  lies beyond (a corner cell counted with the top or bottom row). By
  \<open>neighbor_is_cube_adjacency\<close> and \<open>neighbor_belt\<close> that face is a neighbour on the cube.
\<close>

theorem halo_face_index:
  assumes "faces5 x = 6" "rows5 x = n" "cols5 x = n" "1 \<le> n" "fst (fst (padding L)) = 1"
    and fill: "\<forall>b<batch5 x. \<forall>c<chans5 x. \<forall>i<n. \<forall>j<n. \<forall>f<6. at5 x b c i j f = f"
    and "f < 6" "b < batch5 x" "c < chans5 x" "i < n + 2" "j < n + 2"
    and "i = 0 \<or> i = n + 1 \<or> j = 0 \<or> j = n + 1"
  shows "\<exists>g e2 t. neighbor f (edge_of_cell n i j) = Some (g, e2, t) \<and>
           cell5 (CubeSpherePadding2D_call L x) b c i j f = Some g"
  using face_cases[OF \<open>f < 6\<close>] assms
  by (elim disjE)
     (auto simp add: CubeSpherePadding2D_call_def height_pass_def width_pass_def Let_def join4_def
        join5_def py_slice_def clip_index_def cell5_def neighbor_def edge_of_cell_def)

theorem halo_face_index_witness:
  "neighbor 4 (edge_of_cell 2 0 0) = Some (2, Top, Reverse) \<and>
   cell5 (CubeSpherePadding2D_call (padder 1) (face_index_tensor 2)) 0 0 0 0 4 = Some 2"
  using halo_face_index [of "face_index_tensor 2" 2 "padder 1" 4 0 0 0 0]
  by (simp add: face_index_tensor_def padder_def neighbor_def edge_of_cell_def)

section \<open>Symmetry of the adjacency\<close>

lemma K_reverse_twice:
  "cell4 (K_reverse (K_reverse (Inr s) 2) 2) b c i j = cell4 (Inr s) b c i j"
  "cell4 (K_reverse (K_reverse (Inr s) 3) 3) b c i j = cell4 (Inr s) b c i j"
  by (simp_all add: cell4_def)




section \<open>Corner blocks\<close>

lemmas halo_unfold = pad_unfold cell5_def cell4_def padded_halo_def neighbor_def

text \<open>
  C3, as the code has it. For six square faces of size \<open>n\<close> and a halo of width
  \<open>1 \<le> q \<le> n\<close>, the left and the right halo of every padded face, over its whole padded
  height and so with the four corner blocks, is what one hop across that lateral edge
  reads in the padded neighbour: a corner block holds what the lateral neighbour's own
  halo holds there. The hop across the top or bottom edge is not claimed for the corners.
\<close>

theorem corner_from_lateral_neighbor:
  assumes "6 \<le> faces5 x" "rows5 x = n" "cols5 x = n" "1 \<le> q" "q \<le> n"
    and "fst (fst (padding L)) = int q"
    and "f < 6" "b < batch5 x" "c < chans5 x" "i < n + 2 * q" "j < q"
  shows "(\<exists>v. cell5 (CubeSpherePadding2D_call L x) b c i j f = Some v \<and>
              cell4 (padded_halo (int q) (CubeSpherePadding2D_call L x) f Left) b c i j = Some v) \<and>
         (\<exists>v. cell5 (CubeSpherePadding2D_call L x) b c i (q + n + j) f = Some v \<and>
              cell4 (padded_halo (int q) (CubeSpherePadding2D_call L x) f Right) b c i j = Some v)"
  using face_cases[OF \<open>f < 6\<close>] assms
  by (elim disjE) (auto simp add: halo_unfold)

theorem corner_from_lateral_neighbor_witness:
  "cell5 (CubeSpherePadding2D_call (padder 1) (face_index_tensor 2)) 0 0 0 0 4 = Some 2 \<and>
   cell4 (padded_halo 1 (CubeSpherePadding2D_call (padder 1) (face_index_tensor 2)) 4 Left) 0 0 0 0 = Some 2"
proof -
  have "cell5 (CubeSpherePadding2D_call (padder 1) (face_index_tensor 2)) 0 0 0 0 4 = Some 2"
    by (simp add: CubeSpherePadding2D_call_def height_pass_def width_pass_def Let_def join4_def
        join5_def py_slice_def clip_index_def cell5_def face_index_tensor_def padder_def)
  with corner_from_lateral_neighbor [of "face_index_tensor 2" 2 1 "padder 1" 4 0 0 0 0]
  show ?thesis
    by (simp add: face_index_tensor_def padder_def)
qed

text \<open>
  C3, as the claim has it, fails: in the face-index tensor with faces of size 1, padded
  by 1, the top-left corner cell of face 0 holds 4, the value that the hop across the left
  edge reads; the hop across the top edge reads 3 there.
\<close>

theorem corner_paths_differ:
  "cell5 (CubeSpherePadding2D_call (padder 1) (face_index_tensor 1)) 0 0 0 0 0 = Some 4 \<and>
   cell4 (padded_halo 1 (CubeSpherePadding2D_call (padder 1) (face_index_tensor 1)) 0 Left) 0 0 0 0 = Some 4 \<and>
   cell4 (padded_halo 1 (CubeSpherePadding2D_call (padder 1) (face_index_tensor 1)) 0 Top) 0 0 0 0 = Some 3"
  by (simp add: CubeSpherePadding2D_call_def height_pass_def width_pass_def Let_def join4_def
      join5_def py_slice_def clip_index_def cell5_def cell4_def padded_halo_def neighbor_def
      face_index_tensor_def padder_def)

section \<open>Shape, halo width and construction\<close>

lemma padder_int_accepted:
  "CubeSpherePadding2D_init dflt (PaddingInt p) (Some ''channels_first'') = Inr (padder p)"
  by (simp add: CubeSpherePadding2D_init_def normalize_data_format_def and_then_def
      lower_char_def padder_def Let_def)

text \<open>
  C4. The constructor accepts \<^verbatim>\<open>padding=0\<close>, and the call then fails on a tensor of shape
  \<open>(1, 1, 1, 1, 6)\<close> instead of returning it: \<^verbatim>\<open>-p:\<close> is the whole axis when \<open>p = 0\<close>, so
  the six faces come out of the first pass with different heights. (For
  \<open>1 \<le> p \<le> n\<close> the shape is the claimed one: \<open>padder_shape\<close>.)
\<close>

theorem zero_padding_not_identity:
  "CubeSpherePadding2D_init ''channels_last'' (PaddingInt 0) (Some ''channels_first'') = Inr (padder 0) \<and>
   shape5 (Inr (face_index_tensor 1)) = Some [1, 1, 1, 1, 6] \<and>
   CubeSpherePadding2D_call (padder 0) (face_index_tensor 1) = Inl InvalidArgument"
  by (simp add: padder_int_accepted shape5_def)
     (simp add: CubeSpherePadding2D_call_def height_pass_def width_pass_def Let_def
      join4_def join5_def py_slice_def clip_index_def face_index_tensor_def padder_def)

text \<open>
  C5, as the code has it. The layer has no check of the halo width against the face:
  slices are clipped and only the concatenations can fail. The call fails, with no
  result, whenever the faces are not square, and whenever they are square of size
  \<open>n \<ge> 1\<close> and the halo is wider than \<open>n\<close> but not exactly \<open>2 * n\<close>.
\<close>

theorem pad_failures:
  assumes "fst (fst (padding L)) = p"
    and "rows5 x \<noteq> cols5 x \<or> (1 \<le> rows5 x \<and> int (rows5 x) < p \<and> p \<noteq> 2 * int (rows5 x))"
  shows "CubeSpherePadding2D_call L x = Inl InvalidArgument"
proof (cases "rows5 x = cols5 x")
  case False
  then show ?thesis by (rule not_square_fails)
next
  case True
  with assms(2) have "1 \<le> rows5 x" "int (rows5 x) < p" "p \<noteq> 2 * int (rows5 x)"
    by auto
  with True assms(1) show ?thesis
    by (intro big_halo_fails [where n = "rows5 x" and p = p]) auto
qed

theorem pad_failures_witness:
  "int (rows5 (face_index_tensor 1)) < 3 \<and>
   CubeSpherePadding2D_call (padder 3) (face_index_tensor 1) = Inl InvalidArgument"
  using pad_failures [of "padder 3" 3 "face_index_tensor 1"]
  by (simp add: face_index_tensor_def padder_def)

text \<open>
  C5, as the claim has it, fails: a halo of width 2 on faces of size 1 is wider than the
  face, and the call returns a tensor (of face shape 3 x 3).
\<close>

theorem double_halo_accepted:
  "shape5 (CubeSpherePadding2D_call (padder 2) (face_index_tensor 1)) = Some [1, 1, 3, 3, 6]"
  by (simp add: CubeSpherePadding2D_call_def height_pass_def width_pass_def Let_def
      join4_def join5_def py_slice_def clip_index_def face_index_tensor_def padder_def shape5_def)

text \<open>
  C10. After the base class has normalized the padding argument to three pairs
  \<open>(hp, wp, fp)\<close> and the layout is \<^verbatim>\<open>channels_first\<close>, the constructor raises
  \<^verbatim>\<open>ValueError\<close> when \<open>hp \<noteq> wp\<close> or the two entries of \<open>hp\<close> differ, and otherwise keeps
  \<open>hp\<close> and \<open>wp\<close> and sets the face-axis padding to \<open>(0, 0)\<close> whatever \<open>fp\<close> was; and
  whenever the call of a constructed layer returns, its result has 6 faces.
\<close>

theorem padder_init_checks:
  assumes "normalize_data_format dflt df = Inr ''channels_first''"
    and "ZeroPadding3D_init pa = Inr (hp, wp, fp)"
  shows "(hp \<noteq> wp \<or> fst hp \<noteq> snd hp \<longrightarrow> CubeSpherePadding2D_init dflt pa df = Inl ValueError) \<and>
         (hp = wp \<and> fst hp = snd hp \<longrightarrow>
            CubeSpherePadding2D_init dflt pa df =
              Inr \<lparr>padding = (hp, wp, (0, 0)), data_format = ''channels_first''\<rparr>) \<and>
         (\<forall>L x y. CubeSpherePadding2D_init dflt pa df = Inr L \<longrightarrow>
            snd (snd (padding L)) = (0, 0) \<and>
            (CubeSpherePadding2D_call L x = Inr (y :: 'a tensor5) \<longrightarrow> faces5 y = 6))"
  using assms
  by (auto simp add: CubeSpherePadding2D_init_def and_then_def call_faces)

theorem padder_init_checks_witness:
  "CubeSpherePadding2D_init ''channels_last'' (PaddingSeq [AnInt 1, ASeq [1, 1], ASeq [2, 3]])
       (Some ''channels_first'') = Inr (padder 1) \<and>
   CubeSpherePadding2D_init ''channels_last'' (PaddingSeq [AnInt 1, AnInt 2, AnInt 0])
       (Some ''channels_first'') = Inl ValueError"
proof -
  have df: "normalize_data_format ''channels_last'' (Some ''channels_first'') = Inr ''channels_first''"
    by (simp add: normalize_data_format_def lower_char_def Let_def)
  have p1: "ZeroPadding3D_init (PaddingSeq [AnInt 1, ASeq [1, 1], ASeq [2, 3]]) = Inr ((1, 1), (1, 1), (2, 3))"
    by (simp add: and_then_def as_pair_def numeral_2_eq_2)
  have p2: "ZeroPadding3D_init (PaddingSeq [AnInt 1, AnInt 2, AnInt 0]) = Inr ((1, 1), (2, 2), (0, 0))"
    by (simp add: and_then_def as_pair_def numeral_2_eq_2)
  show ?thesis
    using padder_init_checks [OF df p1, where 'a = nat] padder_init_checks [OF df p2, where 'a = nat]
    by (simp add: padder_def)
qed

section \<open>The convolution layer\<close>

lemma upt_4: "[0 ..< 4] = [0, 1, 2, 3 :: nat]"
  by (simp add: upt_rec)

lemma K_reverse_minus_2: "K_reverse r (- 2) = K_reverse r 2"
  by (cases r) simp_all

lemma face_outputs_plain:
  "face_outputs conv2d bias_add self x =
     [ K_expand_dims (plain_conv2d conv2d bias_add self (equatorial_kernel self) (equatorial_bias self)
          (slice5 (Inr x) Full Full 0)),
       K_expand_dims (plain_conv2d conv2d bias_add self (equatorial_kernel self) (equatorial_bias self)
          (slice5 (Inr x) Full Full 1)),
       K_expand_dims (plain_conv2d conv2d bias_add self (equatorial_kernel self) (equatorial_bias self)
          (slice5 (Inr x) Full Full 2)),
       K_expand_dims (plain_conv2d conv2d bias_add self (equatorial_kernel self) (equatorial_bias self)
          (slice5 (Inr x) Full Full 3)),
       K_expand_dims (plain_conv2d conv2d bias_add self (polar_kernel self) (polar_bias self)
          (slice5 (Inr x) Full Full 4)),
       K_expand_dims
         (if flip_north_pole self
          then K_reverse (plain_conv2d conv2d bias_add self
                 (if independent_north_pole self then north_pole_kernel self else polar_kernel self)
                 (if independent_north_pole self then north_pole_bias self else polar_bias self)
                 (K_reverse (slice5 (Inr x) Full Full 5) 2)) 2
          else plain_conv2d conv2d bias_add self
                 (if independent_north_pole self then north_pole_kernel self else polar_kernel self)
                 (if independent_north_pole self then north_pole_bias self else polar_bias self)
                 (slice5 (Inr x) Full Full 5)) ]"
  by (simp add: face_outputs_def plain_conv2d_def Let_def upt_4 K_reverse_minus_2)

lemma slice5_expand: "slice5 (K_expand_dims r) Full Full 0 = r"
  by (cases r) simp_all

lemma concat6_slices:
  assumes "K_concatenate5 [K_expand_dims r0, K_expand_dims r1, K_expand_dims r2,
                           K_expand_dims r3, K_expand_dims r4, K_expand_dims r5] = Inr pre"
  shows "faces5 pre = 6 \<and>
         slice5 (Inr pre) Full Full 0 = r0 \<and> slice5 (Inr pre) Full Full 1 = r1 \<and>
         slice5 (Inr pre) Full Full 2 = r2 \<and> slice5 (Inr pre) Full Full 3 = r3 \<and>
         slice5 (Inr pre) Full Full 4 = r4 \<and> slice5 (Inr pre) Full Full 5 = r5"
  using assms
  by (cases r0; cases r1; cases r2; cases r3; cases r4; cases r5)
     (auto simp: join5_def split: if_splits)

lemma call_activation:
  assumes "CubeSphereConv2D_call conv2d bias_add self x = Inr y"
  shows "\<exists>pre. K_concatenate5 (face_outputs conv2d bias_add self x) = Inr pre \<and>
               y = applied_activation self pre"
  using assms
  by (auto simp: CubeSphereConv2D_call_def applied_activation_def Let_def
           split: option.splits sum.splits)

text \<open>
  C7, as the code has it. Whenever the layer returns, its result is the configured
  activation applied to the concatenation of the six per-face outputs, and in that
  concatenation each of the faces 0 to 3 is the plain convolution of the same input face
  with the equatorial kernel (plus the equatorial bias when the layer uses one): no other
  face enters.
\<close>

theorem equatorial_faces_independent:
  assumes "CubeSphereConv2D_call conv2d bias_add self x = Inr y" and "f < 4"
  shows "\<exists>pre. K_concatenate5 (face_outputs conv2d bias_add self x) = Inr pre \<and>
           y = applied_activation self pre \<and>
           slice5 (Inr pre) Full Full f =
             plain_conv2d conv2d bias_add self (equatorial_kernel self) (equatorial_bias self)
               (slice5 (Inr x) Full Full f)"
proof -
  from call_activation [OF assms(1)] obtain pre
    where pre: "K_concatenate5 (face_outputs conv2d bias_add self x) = Inr pre"
      and y: "y = applied_activation self pre"
    by blast
  from \<open>f < 4\<close> have "f = 0 \<or> f = 1 \<or> f = 2 \<or> f = 3" by arith
  with concat6_slices [OF pre [unfolded face_outputs_plain]]
  have "slice5 (Inr pre) Full Full f =
          plain_conv2d conv2d bias_add self (equatorial_kernel self) (equatorial_bias self)
            (slice5 (Inr x) Full Full f)"
    by auto
  with pre y show ?thesis by blast
qed

theorem equatorial_faces_independent_witness:
  "cell5 (CubeSphereConv2D_call conv2d_ref bias_add_ref shift_layer ramp_tensor) 0 0 0 0 2 = Some 2 \<and>
   cell4 (plain_conv2d conv2d_ref bias_add_ref shift_layer (equatorial_kernel shift_layer)
            (equatorial_bias shift_layer) (slice5 (Inr ramp_tensor) Full Full 2)) 0 0 0 0 = Some 2"
proof -
  have plain: "cell4 (plain_conv2d conv2d_ref bias_add_ref shift_layer (equatorial_kernel shift_layer)
            (equatorial_bias shift_layer) (slice5 (Inr ramp_tensor) Full Full 2)) 0 0 0 0 = Some 2"
    by (simp add: plain_conv2d_def conv2d_ref_def shift_layer_def base_layer_def ramp_tensor_def
        standard_conv_length_def pad_before_def tap_def cell4_def Let_def upt_rec)
  have "\<exists>y. CubeSphereConv2D_call conv2d_ref bias_add_ref shift_layer ramp_tensor = Inr y"
    by (simp add: CubeSphereConv2D_call_def face_outputs_plain plain_conv2d_def conv2d_ref_def
        shift_layer_def base_layer_def ramp_tensor_def standard_conv_length_def pad_before_def
        Let_def join5_def)
  then obtain y where y: "CubeSphereConv2D_call conv2d_ref bias_add_ref shift_layer ramp_tensor = Inr y"
    by blast
  from equatorial_faces_independent [OF y, of 2] obtain pre
    where "y = applied_activation shift_layer pre"
      and "slice5 (Inr pre) Full Full 2 =
             plain_conv2d conv2d_ref bias_add_ref shift_layer (equatorial_kernel shift_layer)
               (equatorial_bias shift_layer) (slice5 (Inr ramp_tensor) Full Full 2)"
    by auto
  then have "cell4 (slice5 (Inr y) Full Full 2) 0 0 0 0 = Some 2"
    using plain by (simp add: applied_activation_def shift_layer_def base_layer_def)
  then have "cell5 (Inr y) 0 0 0 0 2 = Some 2"
    by (simp add: cell4_def cell5_def split: if_splits)
  with y plain show ?thesis by simp
qed

text \<open>
  C7, as the claim has it, fails when an activation is configured: with the 1 x 1 unit
  kernel and \<^verbatim>\<open>relu\<close>, on the constant \<open>- 1\<close> the plain convolution of face 0 gives \<open>- 1\<close>
  and the layer gives 0.
\<close>

theorem activation_changes_equatorial_output:
  "cell5 (CubeSphereConv2D_call conv2d_ref bias_add_ref relu_layer minus_one_tensor) 0 0 0 0 0 = Some 0 \<and>
   cell4 (plain_conv2d conv2d_ref bias_add_ref relu_layer (equatorial_kernel relu_layer)
            (equatorial_bias relu_layer) (slice5 (Inr minus_one_tensor) Full Full 0)) 0 0 0 0 = Some (- 1)"
  by (simp add: CubeSphereConv2D_call_def face_outputs_plain plain_conv2d_def conv2d_ref_def
      relu_layer_def base_layer_def minus_one_tensor_def standard_conv_length_def pad_before_def
      tap_def cell4_def cell5_def relu_def Let_def join5_def upt_rec)

text \<open>
  Reversed along its height, the north face meets the four equatorial faces at the same
  edges as the south face does, which is what lets the two poles share one kernel.
\<close>

lemma north_pole_reversed_matches_south:
  "map_option fst (neighbor 5 (mirrored_edge e)) = map_option fst (neighbor 4 e)"
  by (cases e) (simp_all add: neighbor_def mirrored_edge_def)

text \<open>
  C6, as the code has it. \<^verbatim>\<open>K.reverse(inputs[..., 5], -2)\<close> acts on a face of four axes
  \<open>(batch, channels, height, width)\<close>, so axis \<open>-2\<close> is the height. Whenever the layer
  returns, its result is the activation applied to the concatenation, whose face 5 is:
  with \<^verbatim>\<open>flip_north_pole\<close>, the input face reversed along its height, convolved with the
  north-pole kernel (the polar kernel unless \<^verbatim>\<open>independent_north_pole\<close>) plus the matching
  bias, and reversed along the height again; without it, the same with no reversal.
\<close>

theorem north_pole_flip_height:
  assumes "CubeSphereConv2D_call conv2d bias_add self x = Inr y"
  shows "\<exists>pre. K_concatenate5 (face_outputs conv2d bias_add self x) = Inr pre \<and>
           y = applied_activation self pre \<and>
           slice5 (Inr pre) Full Full 5 =
             (if flip_north_pole self
              then K_reverse (plain_conv2d conv2d bias_add self
                     (if independent_north_pole self then north_pole_kernel self else polar_kernel self)
                     (if independent_north_pole self then north_pole_bias self else polar_bias self)
                     (K_reverse (slice5 (Inr x) Full Full 5) 2)) 2
              else plain_conv2d conv2d bias_add self
                     (if independent_north_pole self then north_pole_kernel self else polar_kernel self)
                     (if independent_north_pole self then north_pole_bias self else polar_bias self)
                     (slice5 (Inr x) Full Full 5))"
proof -
  from call_activation [OF assms] obtain pre
    where pre: "K_concatenate5 (face_outputs conv2d bias_add self x) = Inr pre"
      and y: "y = applied_activation self pre"
    by blast
  from concat6_slices [OF pre [unfolded face_outputs_plain]] pre y
  show ?thesis by blast
qed

theorem north_pole_flip_height_witness:
  "cell5 (CubeSphereConv2D_call conv2d_ref bias_add_ref shift_layer ramp_tensor) 0 0 0 0 5 = Some 1 \<and>
   cell4 (K_reverse (plain_conv2d conv2d_ref bias_add_ref shift_layer (polar_kernel shift_layer)
            (polar_bias shift_layer) (K_reverse (slice5 (Inr ramp_tensor) Full Full 5) 2)) 2) 0 0 0 0 = Some 1"
proof -
  have plain: "cell4 (K_reverse (plain_conv2d conv2d_ref bias_add_ref shift_layer (polar_kernel shift_layer)
            (polar_bias shift_layer) (K_reverse (slice5 (Inr ramp_tensor) Full Full 5) 2)) 2) 0 0 0 0 = Some 1"
    by (simp add: plain_conv2d_def conv2d_ref_def shift_layer_def base_layer_def ramp_tensor_def
        standard_conv_length_def pad_before_def tap_def cell4_def Let_def upt_rec)
  have "\<exists>y. CubeSphereConv2D_call conv2d_ref bias_add_ref shift_layer ramp_tensor = Inr y"
    by (simp add: CubeSphereConv2D_call_def face_outputs_plain plain_conv2d_def conv2d_ref_def
        shift_layer_def base_layer_def ramp_tensor_def standard_conv_length_def pad_before_def
        Let_def join5_def)
  then obtain y where y: "CubeSphereConv2D_call conv2d_ref bias_add_ref shift_layer ramp_tensor = Inr y"
    by blast
  from north_pole_flip_height [OF y] obtain pre
    where "y = applied_activation shift_layer pre"
      and "slice5 (Inr pre) Full Full 5 =
             K_reverse (plain_conv2d conv2d_ref bias_add_ref shift_layer (polar_kernel shift_layer)
               (polar_bias shift_layer) (K_reverse (slice5 (Inr ramp_tensor) Full Full 5) 2)) 2"
    by (auto simp: shift_layer_def base_layer_def)
  then have "cell4 (slice5 (Inr y) Full Full 5) 0 0 0 0 = Some 1"
    using plain by (simp add: applied_activation_def shift_layer_def base_layer_def)
  then have "cell5 (Inr y) 0 0 0 0 5 = Some 1"
    by (simp add: cell4_def cell5_def split: if_splits)
  with y plain show ?thesis by simp
qed

text \<open>
  C6, as the claim has it, fails: reversing along the width (axis 3 of the face) instead
  gives another value. With a 2 x 1 kernel that reads the lower of two rows, on faces of
  two rows holding 1 and 2, the layer gives 1 on face 5; the reversal along the width
  before and after the convolution gives 2.
\<close>

theorem north_pole_flip_not_width:
  "cell5 (CubeSphereConv2D_call conv2d_ref bias_add_ref shift_layer ramp_tensor) 0 0 0 0 5 = Some 1 \<and>
   cell4 (K_reverse (plain_conv2d conv2d_ref bias_add_ref shift_layer (polar_kernel shift_layer)
            (polar_bias shift_layer) (K_reverse (slice5 (Inr ramp_tensor) Full Full 5) 3)) 3) 0 0 0 0 = Some 2"
  by (simp add: CubeSphereConv2D_call_def face_outputs_plain plain_conv2d_def conv2d_ref_def
      shift_layer_def base_layer_def ramp_tensor_def standard_conv_length_def pad_before_def
      tap_def cell4_def cell5_def Let_def join5_def upt_rec)



text \<open>\<^verbatim>\<open>build\<close> allocates every kernel with the shape
  \<open>kernel_size + (input channels, filters)\<close>, so that the convolution of a face has
  \<^verbatim>\<open>filters\<close> channels.\<close>

lemma build_allocates:
  assumes "conv_data_format L = ''channels_first''" "2 \<le> length shape" "shape ! 1 = Some d"
  shows "\<exists>L'. CubeSphereConv2D_build add_weight L shape = Inr L' \<and> built L' \<and>
           equatorial_kernel L' = Some (add_weight (kernel_size L @ [d, filters L]) ''equatorial_kernel'') \<and>
           polar_kernel L' = Some (add_weight (kernel_size L @ [d, filters L]) ''polar_kernel'') \<and>
           (independent_north_pole L \<longrightarrow>
              north_pole_kernel L' = Some (add_weight (kernel_size L @ [d, filters L]) ''polar_kernel'')) \<and>
           (use_bias L \<longrightarrow> equatorial_bias L' = Some (add_weight [filters L] ''equatorial_bias'') \<and>
              polar_bias L' = Some (add_weight [filters L] ''polar_bias''))"
  using assms
  by (simp add: CubeSphereConv2D_build_def py_index_def and_then_def Let_def)



lemma normalize_tuple_error: "normalize_tuple a n = Inl e \<Longrightarrow> e = ValueError"
  by (cases a) (auto split: if_splits)

lemma normalize_padding_error: "normalize_padding v = Inl e \<Longrightarrow> e = ValueError"
  by (auto simp: normalize_padding_def Let_def split: if_splits)

lemma normalize_data_format_error: "normalize_data_format d v = Inl e \<Longrightarrow> e = ValueError"
  by (auto simp: normalize_data_format_def Let_def split: if_splits)

text \<open>
  C9. The constructor returns \<^verbatim>\<open>ValueError\<close>, and no layer, whenever the normalized layout
  is not \<^verbatim>\<open>channels_first\<close>; a layer it does return has that layout and no weights yet.
  \<^verbatim>\<open>build\<close> on such a layer returns \<^verbatim>\<open>ValueError\<close>, and no layer with weights, whenever
  the channel dimension (index 1 of the input shape) is \<^verbatim>\<open>None\<close>.
\<close>

theorem conv_layout_checks:
  "(normalize_data_format dflt df \<noteq> Inr ''channels_first'' \<longrightarrow>
      (CubeSphereConv2D_init dflt fl ks st pd df dr act ub fnp inp
         :: ('a, 'w) CubeSphereConv2D res) = Inl ValueError) \<and>
   (\<forall>L. (CubeSphereConv2D_init dflt fl ks st pd df dr act ub fnp inp
            :: ('a, 'w) CubeSphereConv2D res) = Inr L \<longrightarrow>
      conv_data_format L = ''channels_first'' \<and> \<not> built L \<and>
      equatorial_kernel L = None \<and> polar_kernel L = None \<and> north_pole_kernel L = None) \<and>
   (\<forall>(L :: ('a, 'w) CubeSphereConv2D) add_weight shape.
      conv_data_format L = ''channels_first'' \<longrightarrow> 2 \<le> length shape \<longrightarrow> shape ! 1 = None \<longrightarrow>
      CubeSphereConv2D_build add_weight L shape = Inl ValueError)"
proof -
  have a: "normalize_data_format dflt df \<noteq> Inr ''channels_first'' \<Longrightarrow>
      (CubeSphereConv2D_init dflt fl ks st pd df dr act ub fnp inp
         :: ('a, 'w) CubeSphereConv2D res) = Inl ValueError"
    by (auto simp: CubeSphereConv2D_init_def and_then_def
        dest: normalize_tuple_error normalize_padding_error normalize_data_format_error
        split: sum.splits)
  have b: "conv_data_format L = ''channels_first'' \<and> \<not> built L \<and>
      equatorial_kernel L = None \<and> polar_kernel L = None \<and> north_pole_kernel L = None"
    if "CubeSphereConv2D_init dflt fl ks st pd df dr act ub fnp inp = Inr L"
    for L :: "('a, 'w) CubeSphereConv2D"
    using that
    by (auto simp: CubeSphereConv2D_init_def and_then_def split: sum.splits if_splits)
  have c: "CubeSphereConv2D_build add_weight L shape = Inl ValueError"
    if "conv_data_format L = ''channels_first''" "2 \<le> length shape" "shape ! 1 = None"
    for L :: "('a, 'w) CubeSphereConv2D" and add_weight and shape :: "int option list"
    using that
    by (simp add: CubeSphereConv2D_build_def py_index_def and_then_def Let_def)
  from a b c show ?thesis by blast
qed

theorem conv_layout_checks_witness:
  "(CubeSphereConv2D_init ''channels_last'' 4 (AnInt 3) (AnInt 1) ''valid'' (Some ''channels_last'')
       (AnInt 1) None True True False :: (int, weights) CubeSphereConv2D res) = Inl ValueError \<and>
   CubeSphereConv2D_build (\<lambda>shape name. Weights (map nat shape) (\<lambda>ix. 0)) base_layer
       [None, None, Some 8, Some 8, Some 6] = Inl ValueError"
proof -
  have "normalize_data_format ''channels_last'' (Some ''channels_last'') \<noteq> Inr ''channels_first''"
    by (simp add: normalize_data_format_def lower_char_def Let_def)
  moreover have "conv_data_format base_layer = ''channels_first''"
    by (simp add: base_layer_def)
  ultimately show ?thesis
    using conv_layout_checks [where 'a = int and 'w = weights and dflt = "''channels_last''" and df = "Some ''channels_last''"
        and fl = 4 and ks = "AnInt 3" and st = "AnInt 1" and pd = "''valid''" and dr = "AnInt 1"
        and act = None and ub = True and fnp = True and inp = False]
    by simp
qed

end
